theory Spec2Isabelle
  imports Main "HOL-Library.Word" "HOL-Library.Char_ord" "HOL-Library.List_Lexorder"
begin

unbundle bit_operations_syntax

section \<open>Data model\<close>

text \<open>
  The program works on the dictionaries that \<^verbatim>\<open>json.load\<close> returns for the files of
  the mempool, and on the dictionary literal of \<^verbatim>\<open>create_coinbase_transaction\<close>. A
  transaction has the keys \<^verbatim>\<open>version\<close>, \<^verbatim>\<open>locktime\<close>, \<^verbatim>\<open>txid\<close>, \<^verbatim>\<open>vin\<close> and
  \<^verbatim>\<open>vout\<close>; an input has \<^verbatim>\<open>txid\<close>, \<^verbatim>\<open>vout\<close> and possibly \<^verbatim>\<open>prevout\<close>; an output
  has \<^verbatim>\<open>scriptpubkey\<close> and \<^verbatim>\<open>value\<close>. The validation reads \<^verbatim>\<open>vin\<close>, \<^verbatim>\<open>vout\<close> and
  \<^verbatim>\<open>locktime\<close> of a transaction, \<^verbatim>\<open>txid\<close> and \<^verbatim>\<open>vout\<close> of an input and \<^verbatim>\<open>value\<close> of
  an output, and the mining reads \<^verbatim>\<open>txid\<close> of a transaction; a dictionary may lack
  each key that the validation does not read, which is an optional field here.
  Python integers are unbounded, hence \<open>int\<close>. A string is a list of code points
  below 256.

  The value of an output and the locktime are numbers as the JSON reader delivers
  them: an integer, or the floating-point value NaN, with which every comparison is
  \<^verbatim>\<open>False\<close> and every sum is NaN. The other floating-point values, whose sums are
  rounded, are outside the model.

  The \<^verbatim>\<open>txid\<close> of an input is a string in the mempool and the integer \<^verbatim>\<open>0\<close> in the
  coinbase transaction, so it is a value of either kind. Python's \<^verbatim>\<open>==\<close> between
  an integer and a string is \<^verbatim>\<open>False\<close>, which is the equality of this datatype.
\<close>

datatype pyval = PyStr string | PyInt int

datatype pynum = PyNum int | PyNaN

text \<open>\<^verbatim>\<open>a < b\<close> and \<^verbatim>\<open>a + b\<close> on these numbers; \<^verbatim>\<open>a > b\<close> is \<^verbatim>\<open>b < a\<close>.\<close>

fun num_less :: "pynum \<Rightarrow> pynum \<Rightarrow> bool" where
  "num_less (PyNum x) (PyNum y) = (x < y)"
| "num_less a b = False"

fun num_add :: "pynum \<Rightarrow> pynum \<Rightarrow> pynum" where
  "num_add (PyNum x) (PyNum y) = PyNum (x + y)"
| "num_add a b = PyNaN"

record prevout =
  prev_scriptpubkey :: string
  prev_value :: int

record tx_input =
  in_txid :: pyval
  in_vout :: int
  in_prevout :: "prevout option"

record tx_output =
  out_scriptpubkey :: "string option"
  out_value :: pynum

record transaction =
  version :: "int option"
  locktime :: pynum
  txid :: "string option"
  vin :: "tx_input list"
  vout :: "tx_output list"

definition MIN_OUTPUT_VALUE :: int where
  "MIN_OUTPUT_VALUE = 0"

definition MAX_OUTPUT_VALUE :: int where
  "MAX_OUTPUT_VALUE = 21000000"

definition MAX_BLOCK_SIZE :: int where
  "MAX_BLOCK_SIZE = 4000000"

definition MAX_VOUT :: int where
  "MAX_VOUT = 2 ^ 32 - 1"

text \<open>\<^verbatim>\<open>sys.maxsize\<close> of a 64-bit CPython.\<close>

definition sys_maxsize :: int where
  "sys_maxsize = 2 ^ 63 - 1"

section \<open>Digits\<close>

definition digit_char :: "nat \<Rightarrow> char" where
  "digit_char d = ''0123456789abcdef'' ! d"

text \<open>The digits of a natural number in a base, most significant first; \<open>0\<close> is \<open>''0''\<close>.\<close>

fun digits :: "nat \<Rightarrow> nat \<Rightarrow> string" where
  "digits b n =
     (if b < 2 \<or> n < b then [digit_char n]
      else digits b (n div b) @ [digit_char (n mod b)])"

declare digits.simps [simp del]

text \<open>\<^verbatim>\<open>str(n)\<close> of an integer.\<close>

definition str_int :: "int \<Rightarrow> string" where
  "str_int n = (if n < 0 then CHR ''-'' # digits 10 (nat (- n)) else digits 10 (nat n))"

section \<open>JSON serialization\<close>

text \<open>
  \<^verbatim>\<open>json.dumps\<close> with its default separators and \<^verbatim>\<open>ensure_ascii=True\<close>. A dictionary
  is an association list in insertion order. With \<^verbatim>\<open>sort_keys=True\<close> the items of
  every dictionary are written in the order of their keys.
\<close>

datatype json =
    JNull
  | JBool bool
  | JInt int
  | JNaN
  | JStr string
  | JList "json list"
  | JDict "(string \<times> json) list"

definition hex4 :: "nat \<Rightarrow> string" where
  "hex4 n = replicate (4 - length (digits 16 n)) CHR ''0'' @ digits 16 n"

text \<open>
  The escapes of \<^verbatim>\<open>py_encode_basestring_ascii\<close>: the backslash, the double quote and
  every character outside the range from space to tilde.
\<close>

definition escape_char :: "char \<Rightarrow> string" where
  "escape_char c =
     (if c = CHR 0x5C then [CHR 0x5C, CHR 0x5C]
      else if c = CHR 0x22 then [CHR 0x5C, CHR 0x22]
      else if c = CHR 0x08 then [CHR 0x5C, CHR ''b'']
      else if c = CHR 0x0C then [CHR 0x5C, CHR ''f'']
      else if c = CHR 0x0A then [CHR 0x5C, CHR ''n'']
      else if c = CHR 0x0D then [CHR 0x5C, CHR ''r'']
      else if c = CHR 0x09 then [CHR 0x5C, CHR ''t'']
      else if of_char c < (0x20 :: nat) \<or> (0x7E :: nat) < of_char c
        then [CHR 0x5C, CHR ''u''] @ hex4 (of_char c)
      else [c])"

definition json_string :: "string \<Rightarrow> string" where
  "json_string s = [CHR 0x22] @ concat (map escape_char s) @ [CHR 0x22]"

text \<open>\<^verbatim>\<open>", ".join(parts)\<close>.\<close>

fun join_comma :: "string list \<Rightarrow> string" where
  "join_comma [] = []"
| "join_comma [x] = x"
| "join_comma (x # y # ys) = x @ '', '' @ join_comma (y # ys)"

fun json_dumps_with :: "bool \<Rightarrow> json \<Rightarrow> string" where
  "json_dumps_with sk JNull = ''null''"
| "json_dumps_with sk (JBool b) = (if b then ''true'' else ''false'')"
| "json_dumps_with sk (JInt n) = str_int n"
| "json_dumps_with sk JNaN = ''NaN''"
| "json_dumps_with sk (JStr s) = json_string s"
| "json_dumps_with sk (JList xs) = ''['' @ join_comma (map (json_dumps_with sk) xs) @ '']''"
| "json_dumps_with sk (JDict kvs) =
     (let items = map (\<lambda>kv. (fst kv, json_dumps_with sk (snd kv))) kvs
      in ''{'' @ join_comma
           (map (\<lambda>kv. json_string (fst kv) @ '': '' @ snd kv)
              (if sk then sort_key fst items else items)) @ ''}'')"

definition json_dumps :: "json \<Rightarrow> string" where
  "json_dumps j = json_dumps_with False j"

text \<open>
  The dictionary of a transaction, with the keys that it has. The order of the keys in
  a mempool file is not known; the program uses the unsorted serialization for its
  length only, which does not depend on the order of the keys, and writes the sorted
  serialization.
\<close>

definition pynum_to_json :: "pynum \<Rightarrow> json" where
  "pynum_to_json v = (case v of PyNum n \<Rightarrow> JInt n | PyNaN \<Rightarrow> JNaN)"

definition prevout_to_json :: "prevout \<Rightarrow> json" where
  "prevout_to_json p =
     JDict [(''scriptpubkey'', JStr (prev_scriptpubkey p)), (''value'', JInt (prev_value p))]"

definition pyval_to_json :: "pyval \<Rightarrow> json" where
  "pyval_to_json v = (case v of PyStr s \<Rightarrow> JStr s | PyInt n \<Rightarrow> JInt n)"

definition input_to_json :: "tx_input \<Rightarrow> json" where
  "input_to_json i =
     JDict ([(''txid'', pyval_to_json (in_txid i)), (''vout'', JInt (in_vout i))] @
       (case in_prevout i of None \<Rightarrow> [] | Some p \<Rightarrow> [(''prevout'', prevout_to_json p)]))"

definition output_to_json :: "tx_output \<Rightarrow> json" where
  "output_to_json ou =
     JDict ((case out_scriptpubkey ou of None \<Rightarrow> [] | Some s \<Rightarrow> [(''scriptpubkey'', JStr s)]) @
       [(''value'', pynum_to_json (out_value ou))])"

definition transaction_to_json :: "transaction \<Rightarrow> json" where
  "transaction_to_json t =
     JDict ((case version t of None \<Rightarrow> [] | Some v \<Rightarrow> [(''version'', JInt v)]) @
            [(''locktime'', pynum_to_json (locktime t)),
             (''vin'', JList (map input_to_json (vin t))),
             (''vout'', JList (map output_to_json (vout t)))] @
            (case txid t of None \<Rightarrow> [] | Some s \<Rightarrow> [(''txid'', JStr s)]))"

text \<open>\<^verbatim>\<open>serialize_transaction\<close>: \<^verbatim>\<open>json.dumps(transaction, sort_keys=True)\<close>.\<close>

definition serialize_transaction :: "transaction \<Rightarrow> string" where
  "serialize_transaction t = json_dumps_with True (transaction_to_json t)"

section \<open>Validation\<close>

text \<open>
  The first loop of \<^verbatim>\<open>validate_transaction\<close>, over the outputs, with the running
  \<^verbatim>\<open>total\<close> (here \<open>tot\<close>): \<open>None\<close> when the loop returns \<^verbatim>\<open>False\<close>, the total otherwise.
\<close>

fun check_outputs :: "tx_output list \<Rightarrow> pynum \<Rightarrow> pynum option" where
  "check_outputs [] tot = Some tot"
| "check_outputs (output # rest) tot =
     (if num_less (out_value output) (PyNum MIN_OUTPUT_VALUE)
         \<or> num_less (PyNum MAX_OUTPUT_VALUE) (out_value output) then None
      else check_outputs rest (num_add tot (out_value output)))"

text \<open>The second loop, over the inputs: \<open>False\<close> when the loop returns \<^verbatim>\<open>False\<close>.\<close>

fun check_inputs :: "tx_input list \<Rightarrow> bool" where
  "check_inputs [] = True"
| "check_inputs (input # rest) =
     (if in_txid input = PyStr ''0'' \<and> in_vout input = - 1 then False
      else check_inputs rest)"

text \<open>
  The function returns \<^verbatim>\<open>False\<close> at each rejection and reaches the end of its body
  otherwise, which in Python returns \<^verbatim>\<open>None\<close>: the result is \<open>Some False\<close> or \<open>None\<close>.
\<close>

definition validate_transaction :: "transaction \<Rightarrow> bool option" where
  "validate_transaction transaction =
     (if vin transaction = [] \<or> vout transaction = [] then Some False
      else case check_outputs (vout transaction) (PyNum 0) of
        None \<Rightarrow> Some False
      | Some tot \<Rightarrow>
          if num_less (PyNum MAX_OUTPUT_VALUE) tot \<or> num_less tot (PyNum MIN_OUTPUT_VALUE)
            then Some False
          else if check_inputs (vin transaction) = False then Some False
          else if num_less (PyNum sys_maxsize) (locktime transaction)
                  \<or> num_less (locktime transaction) (PyNum 0) then Some False
          else if int (length (json_dumps (transaction_to_json transaction))) < 100
            then Some False
          else None)"

text \<open>The truth value of a result, as the filter of \<^verbatim>\<open>main\<close> reads it.\<close>

definition truthy :: "bool option \<Rightarrow> bool" where
  "truthy r = (r = Some True)"

section \<open>Field codec\<close>

text \<open>The exceptions that the modelled part of the program can raise.\<close>

datatype error = ValueError | KeyError

definition zfill :: "nat \<Rightarrow> string \<Rightarrow> string" where
  "zfill w s = replicate (w - length s) CHR ''0'' @ s"

text \<open>
  \<^verbatim>\<open>field(data, size)\<close> is \<^verbatim>\<open>format(data, "0{}x".format(size * 2))\<close>: lower-case
  hexadecimal digits, padded with zeros to the width when they are fewer, the sign
  of a negative number first and counted in the width. The number of bytes is a
  natural number (the program passes 4).
\<close>

definition field :: "int \<Rightarrow> nat \<Rightarrow> string" where
  "field data nbytes =
     (if data < 0 then CHR ''-'' # zfill (nbytes * 2 - 1) (digits 16 (nat (- data)))
      else zfill (nbytes * 2) (digits 16 (nat data)))"

text \<open>\<^verbatim>\<open>[data[i : i + 2] for i in range(0, len(data), 2)]\<close>\<close>

fun byte_pairs :: "string \<Rightarrow> string list" where
  "byte_pairs [] = []"
| "byte_pairs [a] = [[a]]"
| "byte_pairs (a # b # rest) = [a, b] # byte_pairs rest"

definition reversebytes :: "string \<Rightarrow> string" where
  "reversebytes data = concat (rev (byte_pairs data))"

text \<open>The value of a hexadecimal digit of either case.\<close>

definition hex_val :: "char \<Rightarrow> nat option" where
  "hex_val c =
     (let n = (of_char c :: nat) in
      if 48 \<le> n \<and> n \<le> 57 then Some (n - 48)
      else if 97 \<le> n \<and> n \<le> 102 then Some (n - 87)
      else if 65 \<le> n \<and> n \<le> 70 then Some (n - 55)
      else None)"

definition is_space :: "char \<Rightarrow> bool" where
  "is_space c = (c \<in> set [CHR 0x20, CHR 0x09, CHR 0x0A, CHR 0x0B, CHR 0x0C, CHR 0x0D])"

text \<open>
  \<^verbatim>\<open>bytes.fromhex\<close>: white space is skipped before a pair of digits, and a character
  that is not a digit, also the missing second digit of a pair, raises
  \<^verbatim>\<open>ValueError\<close>.
\<close>

fun fromhex :: "string \<Rightarrow> error + 8 word list" where
  "fromhex [] = Inr []"
| "fromhex [c] = (if is_space c then Inr [] else Inl ValueError)"
| "fromhex (c # d # rest) =
     (if is_space c then fromhex (d # rest)
      else case (hex_val c, hex_val d) of
          (Some hi, Some lo) \<Rightarrow>
            (case fromhex rest of
               Inl e \<Rightarrow> Inl e
             | Inr bs \<Rightarrow> Inr (of_nat (16 * hi + lo) # bs))
        | _ \<Rightarrow> Inl ValueError)"

text \<open>
  \<^verbatim>\<open>int(s, 16)\<close> on a string of hexadecimal digits. Python also reads a sign, the
  prefix \<^verbatim>\<open>0x\<close>, underscores between digits and surrounding white space; a string
  of these forms is outside the model, which raises on it as on any other string.
\<close>

fun hex_value :: "string \<Rightarrow> int \<Rightarrow> error + int" where
  "hex_value [] acc = Inr acc"
| "hex_value (c # cs) acc =
     (case hex_val c of
        None \<Rightarrow> Inl ValueError
      | Some d \<Rightarrow> hex_value cs (16 * acc + int d))"

definition int16 :: "string \<Rightarrow> error + int" where
  "int16 s = (if s = [] then Inl ValueError else hex_value s 0)"

text \<open>The strings of hexadecimal digits.\<close>

definition is_hex :: "string \<Rightarrow> bool" where
  "is_hex s = list_all (\<lambda>c. hex_val c \<noteq> None) s"

section \<open>SHA-256\<close>

text \<open>\<^verbatim>\<open>hashlib.sha256\<close>, as FIPS 180-4 defines it, on 32-bit words.\<close>

definition K256 :: "32 word list" where
  "K256 =
     [0x428A2F98, 0x71374491, 0xB5C0FBCF, 0xE9B5DBA5,
      0x3956C25B, 0x59F111F1, 0x923F82A4, 0xAB1C5ED5,
      0xD807AA98, 0x12835B01, 0x243185BE, 0x550C7DC3,
      0x72BE5D74, 0x80DEB1FE, 0x9BDC06A7, 0xC19BF174,
      0xE49B69C1, 0xEFBE4786, 0x0FC19DC6, 0x240CA1CC,
      0x2DE92C6F, 0x4A7484AA, 0x5CB0A9DC, 0x76F988DA,
      0x983E5152, 0xA831C66D, 0xB00327C8, 0xBF597FC7,
      0xC6E00BF3, 0xD5A79147, 0x06CA6351, 0x14292967,
      0x27B70A85, 0x2E1B2138, 0x4D2C6DFC, 0x53380D13,
      0x650A7354, 0x766A0ABB, 0x81C2C92E, 0x92722C85,
      0xA2BFE8A1, 0xA81A664B, 0xC24B8B70, 0xC76C51A3,
      0xD192E819, 0xD6990624, 0xF40E3585, 0x106AA070,
      0x19A4C116, 0x1E376C08, 0x2748774C, 0x34B0BCB5,
      0x391C0CB3, 0x4ED8AA4A, 0x5B9CCA4F, 0x682E6FF3,
      0x748F82EE, 0x78A5636F, 0x84C87814, 0x8CC70208,
      0x90BEFFFA, 0xA4506CEB, 0xBEF9A3F7, 0xC67178F2]"

type_synonym sha_state =
  "32 word \<times> 32 word \<times> 32 word \<times> 32 word \<times> 32 word \<times> 32 word \<times> 32 word \<times> 32 word"

definition H256 :: sha_state where
  "H256 = (0x6A09E667, 0xBB67AE85, 0x3C6EF372, 0xA54FF53A,
           0x510E527F, 0x9B05688C, 0x1F83D9AB, 0x5BE0CD19)"

definition rotr :: "nat \<Rightarrow> 32 word \<Rightarrow> 32 word" where
  "rotr n x = word_rotr n x"

definition Ch :: "32 word \<Rightarrow> 32 word \<Rightarrow> 32 word \<Rightarrow> 32 word" where
  "Ch x y z = (x AND y) XOR (NOT x AND z)"

definition Maj :: "32 word \<Rightarrow> 32 word \<Rightarrow> 32 word \<Rightarrow> 32 word" where
  "Maj x y z = (x AND y) XOR (x AND z) XOR (y AND z)"

definition Sigma0 :: "32 word \<Rightarrow> 32 word" where
  "Sigma0 x = rotr 2 x XOR rotr 13 x XOR rotr 22 x"

definition Sigma1 :: "32 word \<Rightarrow> 32 word" where
  "Sigma1 x = rotr 6 x XOR rotr 11 x XOR rotr 25 x"

definition sigma0 :: "32 word \<Rightarrow> 32 word" where
  "sigma0 x = rotr 7 x XOR rotr 18 x XOR drop_bit 3 x"

definition sigma1 :: "32 word \<Rightarrow> 32 word" where
  "sigma1 x = rotr 17 x XOR rotr 19 x XOR drop_bit 10 x"

text \<open>
  The padding: the byte \<open>0x80\<close>, zeros up to 56 modulo 64, and the length of the
  message in bits as 8 bytes, most significant first.
\<close>

definition length_bytes :: "nat \<Rightarrow> 8 word list" where
  "length_bytes n = map (\<lambda>i. of_nat (n div 2 ^ (8 * (7 - i)))) [0 ..< 8]"

definition pad :: "8 word list \<Rightarrow> 8 word list" where
  "pad m =
     m @ [0x80] @ replicate ((119 - length m mod 64) mod 64) 0 @ length_bytes (8 * length m)"

fun chunks :: "nat \<Rightarrow> 'a list \<Rightarrow> 'a list list" where
  "chunks n xs =
     (if n = 0 \<or> xs = [] then [] else take n xs # chunks n (drop n xs))"

declare chunks.simps [simp del]

definition word_of_bytes :: "8 word list \<Rightarrow> 32 word" where
  "word_of_bytes bs = foldl (\<lambda>w b. push_bit 8 w OR ucast b) 0 bs"

definition bytes_of_word :: "32 word \<Rightarrow> 8 word list" where
  "bytes_of_word w = [ucast (drop_bit 24 w), ucast (drop_bit 16 w), ucast (drop_bit 8 w), ucast w]"

text \<open>The message schedule: the 16 words of a block, extended to 64.\<close>

fun extend :: "nat \<Rightarrow> 32 word list \<Rightarrow> 32 word list" where
  "extend 0 w = w"
| "extend (Suc k) w =
     (let t = length w
      in extend k
           (w @ [sigma1 (w ! (t - 2)) + w ! (t - 7) + sigma0 (w ! (t - 15)) + w ! (t - 16)]))"

definition schedule :: "8 word list \<Rightarrow> 32 word list" where
  "schedule block = extend 48 (map word_of_bytes (chunks 4 block))"

fun sha_round :: "sha_state \<Rightarrow> 32 word \<times> 32 word \<Rightarrow> sha_state" where
  "sha_round (a, b, c, d, e, f, g, h) (k, w) =
     (let t1 = h + Sigma1 e + Ch e f g + k + w;
          t2 = Sigma0 a + Maj a b c
      in (t1 + t2, a, b, c, d + t1, e, f, g))"

fun add_state :: "sha_state \<Rightarrow> sha_state \<Rightarrow> sha_state" where
  "add_state (a, b, c, d, e, f, g, h) (a', b', c', d', e', f', g', h') =
     (a + a', b + b', c + c', d + d', e + e', f + f', g + g', h + h')"

definition compress :: "sha_state \<Rightarrow> 8 word list \<Rightarrow> sha_state" where
  "compress st block = add_state st (foldl sha_round st (zip K256 (schedule block)))"

fun state_bytes :: "sha_state \<Rightarrow> 8 word list" where
  "state_bytes (a, b, c, d, e, f, g, h) = concat (map bytes_of_word [a, b, c, d, e, f, g, h])"

text \<open>\<^verbatim>\<open>hashlib.sha256(m).digest()\<close>\<close>

definition sha256 :: "8 word list \<Rightarrow> 8 word list" where
  "sha256 m = state_bytes (foldl compress H256 (chunks 64 (pad m)))"

definition hex_byte :: "8 word \<Rightarrow> string" where
  "hex_byte b = [digit_char (unat b div 16), digit_char (unat b mod 16)]"

text \<open>The \<^verbatim>\<open>hexdigest\<close> of a digest.\<close>

definition hexdigest :: "8 word list \<Rightarrow> string" where
  "hexdigest bs = concat (map hex_byte bs)"

text \<open>\<^verbatim>\<open>str.encode()\<close>: UTF-8, of code points below 256.\<close>

definition encode_char :: "char \<Rightarrow> 8 word list" where
  "encode_char c =
     (let n = (of_char c :: nat)
      in if n < 128 then [of_nat n] else [of_nat (192 + n div 64), of_nat (128 + n mod 64)])"

definition encode :: "string \<Rightarrow> 8 word list" where
  "encode s = concat (map encode_char s)"

section \<open>Mining\<close>

text \<open>The local function \<^verbatim>\<open>hash256\<close> of \<^verbatim>\<open>mining\<close>.\<close>

definition hash256 :: "string \<Rightarrow> error + string" where
  "hash256 data =
     (case fromhex data of
        Inl e \<Rightarrow> Inl e
      | Inr binary \<Rightarrow> Inr (hexdigest (sha256 (sha256 binary))))"

definition prevblock :: string where
  "prevblock = ''000000000002d01c1fccc21636b607dfd930d31d01c3a62104612a1719011250''"

text \<open>\<^verbatim>\<open>hashlib.sha256("".join(txids).encode()).hexdigest()\<close>\<close>

definition merkleroot :: "string list \<Rightarrow> string" where
  "merkleroot txids = hexdigest (sha256 (encode (concat txids)))"

text \<open>
  \<^verbatim>\<open>[transaction["txid"] for transaction in transactions]\<close>, which raises
  \<^verbatim>\<open>KeyError\<close> at a transaction without the key.
\<close>

fun txids_of :: "transaction list \<Rightarrow> error + string list" where
  "txids_of [] = Inr []"
| "txids_of (transaction # rest) =
     (case txid transaction of
        None \<Rightarrow> Inl KeyError
      | Some i \<Rightarrow> (case txids_of rest of Inl e \<Rightarrow> Inl e | Inr is \<Rightarrow> Inr (i # is)))"

text \<open>
  The serialized header that \<^verbatim>\<open>mining\<close> builds before its loop, from the identifiers
  and the time stamp. The time stamp is \<^verbatim>\<open>int(time.time())\<close>, a parameter here.
\<close>

definition header :: "int \<Rightarrow> string list \<Rightarrow> string" where
  "header time_stamp txids =
     reversebytes (field 2 4)
     @ reversebytes prevblock
     @ reversebytes (merkleroot txids)
     @ reversebytes (field time_stamp 4)"

text \<open>One iteration of the loop: it raises, returns, or goes on to the next nonce.\<close>

datatype step = Raise error | Return string string | Continue

definition attempt :: "string \<Rightarrow> int \<Rightarrow> string" where
  "attempt hdr nonce = hdr @ reversebytes (field nonce 4)"

definition mining_step :: "string \<Rightarrow> string \<Rightarrow> int \<Rightarrow> step" where
  "mining_step hdr target nonce =
     (case hash256 (attempt hdr nonce) of
        Inl e \<Rightarrow> Raise e
      | Inr h \<Rightarrow>
          (case int16 (reversebytes h) of
             Inl e \<Rightarrow> Raise e
           | Inr r \<Rightarrow>
               (case int16 target of
                  Inl e \<Rightarrow> Raise e
                | Inr t \<Rightarrow> if r < t then Return hdr (reversebytes h) else Continue)))"

text \<open>
  The loop \<^verbatim>\<open>while True\<close>. It has no bound of its own, so it is a partial function:
  \<open>None\<close> is a loop that never ends, \<open>Some (Inl e)\<close> an exception, and
  \<open>Some (Inr (header, result))\<close> the pair that the function returns.
\<close>

partial_function (option) mining_loop ::
  "string \<Rightarrow> string \<Rightarrow> int \<Rightarrow> (error + string \<times> string) option" where
  "mining_loop hdr target nonce =
     (case mining_step hdr target nonce of
        Raise e \<Rightarrow> Some (Inl e)
      | Return h r \<Rightarrow> Some (Inr (h, r))
      | Continue \<Rightarrow> mining_loop hdr target (nonce + 1))"

declare mining_loop.simps [code]

definition mining :: "int \<Rightarrow> string \<Rightarrow> transaction list \<Rightarrow> (error + string \<times> string) option" where
  "mining time_stamp target transactions =
     (case txids_of transactions of
        Inl e \<Rightarrow> Some (Inl e)
      | Inr txids \<Rightarrow> mining_loop (header time_stamp txids) target 0)"

section \<open>Block assembly\<close>

definition create_coinbase_transaction :: transaction where
  "create_coinbase_transaction =
     \<lparr> version = Some 2,
       locktime = PyNum 0,
       txid = Some ''coinbase_txid_placeholder'',
       vin = [\<lparr> in_txid = PyInt 0,
                in_vout = MAX_VOUT,
                in_prevout = Some \<lparr> prev_scriptpubkey = ''coinbase_scriptpubkey'',
                                      prev_value = 50 \<rparr> \<rparr>],
       vout = [\<lparr> out_scriptpubkey = Some ''coinbase_scriptpubkey'',
                 out_value = PyNum 50 \<rparr>] \<rparr>"

text \<open>
  \<^verbatim>\<open>main\<close>, from the list that \<^verbatim>\<open>read_transactions_from_mempool\<close> returns to the
  lines written to the output file.
\<close>

definition valid_transactions :: "transaction list \<Rightarrow> transaction list" where
  "valid_transactions transactions = filter (\<lambda>tx. truthy (validate_transaction tx)) transactions"

definition transactions_for_block :: "transaction list \<Rightarrow> transaction list" where
  "transactions_for_block transactions =
     [create_coinbase_transaction] @ valid_transactions transactions"

definition difficulty_target :: string where
  "difficulty_target = ''0000ffff00000000000000000000000000000000000000000000000000000000''"

text \<open>
  The lines of the output file: the header (\<^verbatim>\<open>json.dumps\<close> of a string, on which
  \<^verbatim>\<open>indent\<close> and \<^verbatim>\<open>sort_keys\<close> have no effect), the coinbase transaction, and the
  identifier of each valid transaction (\<^verbatim>\<open>tx["txid"]\<close>, with its \<^verbatim>\<open>KeyError\<close>).
\<close>

definition output_lines :: "string \<Rightarrow> transaction list \<Rightarrow> error + string list" where
  "output_lines block_header transactions =
     (case txids_of (valid_transactions transactions) of
        Inl e \<Rightarrow> Inl e
      | Inr txids \<Rightarrow>
          Inr ([json_dumps_with True (JStr block_header),
                serialize_transaction create_coinbase_transaction] @ txids))"

definition main :: "int \<Rightarrow> transaction list \<Rightarrow> (error + string list) option" where
  "main time_stamp transactions =
     (case mining time_stamp difficulty_target (transactions_for_block transactions) of
        None \<Rightarrow> None
      | Some (Inl e) \<Rightarrow> Some (Inl e)
      | Some (Inr (block_header, block_hash)) \<Rightarrow>
          Some (output_lines block_header transactions))"

section \<open>An example pool\<close>

text \<open>
  Three transactions as \<^verbatim>\<open>read_transactions_from_mempool\<close> returns them. The first two
  obey every rule of the validation; in the third each output is within the bounds and
  their sum, 40000000, is not.
\<close>

definition pool_tx1 :: transaction where
  "pool_tx1 =
     \<lparr> version = Some 1,
       locktime = PyNum 0,
       txid = Some ''3f1c0a5e9b7d2468ace013579bdf02468ace13579bdf0a1b2c3d4e5f60718293'',
       vin = [\<lparr> in_txid = PyStr ''a3b1c2d4e5f60718293a4b5c6d7e8f90112233445566778899aabbccddeeff00'',
                in_vout = 0,
                in_prevout = Some \<lparr> prev_scriptpubkey = ''0014d85c2b71d0060b09c9886aeb815e50991dda124d'',
                                      prev_value = 120000 \<rparr> \<rparr>],
       vout = [\<lparr> out_scriptpubkey = Some ''0014a1b2c3d4e5f60718293a4b5c6d7e8f9011223344'',
                 out_value = PyNum 100000 \<rparr>] \<rparr>"

definition pool_tx2 :: transaction where
  "pool_tx2 =
     \<lparr> version = Some 2,
       locktime = PyNum 840000,
       txid = Some ''9e8d7c6b5a4f3e2d1c0b9a8f7e6d5c4b3a2f1e0d9c8b7a6f5e4d3c2b1a0f9e8d'',
       vin = [\<lparr> in_txid = PyStr ''00112233445566778899aabbccddeeff00112233445566778899aabbccddeeff'',
                in_vout = 1,
                in_prevout = None \<rparr>],
       vout = [\<lparr> out_scriptpubkey = Some ''76a914000102030405060708090a0b0c0d0e0f1011121388ac'',
                 out_value = PyNum 21000000 \<rparr>,
               \<lparr> out_scriptpubkey = Some ''6a'', out_value = PyNum 0 \<rparr>] \<rparr>"

definition pool_tx3 :: transaction where
  "pool_tx3 =
     \<lparr> version = Some 2,
       locktime = PyNum 0,
       txid = Some ''5d4c3b2a190807f6e5d4c3b2a190807f6e5d4c3b2a190807f6e5d4c3b2a19080'',
       vin = [\<lparr> in_txid = PyStr ''ffeeddccbbaa99887766554433221100ffeeddccbbaa99887766554433221100'',
                in_vout = 3,
                in_prevout = None \<rparr>],
       vout = [\<lparr> out_scriptpubkey = Some ''0014d85c2b71d0060b09c9886aeb815e50991dda124d'',
                 out_value = PyNum 20000000 \<rparr>,
               \<lparr> out_scriptpubkey = Some ''0014a1b2c3d4e5f60718293a4b5c6d7e8f9011223344'',
                 out_value = PyNum 20000000 \<rparr>] \<rparr>"

text \<open>
  The first of them with the value of its output replaced by NaN, as the JSON reader
  delivers the literal \<^verbatim>\<open>NaN\<close>; and a dictionary with the keys that the validation
  reads and no other, which obeys every rule but that of the size.
\<close>

definition nan_tx :: transaction where
  "nan_tx =
     pool_tx1 \<lparr> vout := [\<lparr> out_scriptpubkey = Some ''0014a1b2c3d4e5f60718293a4b5c6d7e8f9011223344'',
                          out_value = PyNaN \<rparr>] \<rparr>"

definition short_tx :: transaction where
  "short_tx =
     \<lparr> version = None,
       locktime = PyNum 0,
       txid = None,
       vin = [\<lparr> in_txid = PyStr ''a'', in_vout = 0, in_prevout = None \<rparr>],
       vout = [\<lparr> out_scriptpubkey = None, out_value = PyNum 1 \<rparr>] \<rparr>"

section \<open>Evaluation on numerals\<close>

lemma replicate_numeral: "replicate (numeral k) x = x # replicate (pred_numeral k) x"
  by (simp add: numeral_eq_Suc)

section \<open>Byte order\<close>

lemma reversebytes_pair: "reversebytes (a # b # rest) = reversebytes rest @ [a, b]"
  by (simp add: reversebytes_def)

lemma length_reversebytes: "length (reversebytes x) = length x"
  by (induction x rule: byte_pairs.induct) (simp_all add: reversebytes_def)

lemma reversebytes_snoc_pair:
  "even (length xs) \<Longrightarrow> reversebytes (xs @ [a, b]) = [a, b] @ reversebytes xs"
  by (induction xs rule: byte_pairs.induct) (simp_all add: reversebytes_def)

text \<open>
  C7. Reversing the byte order twice gives the string back, for every string of even
  length: \<open>reversebytes (reversebytes x) = x\<close>.
\<close>

theorem reversebytes_involution:
  "even (length x) \<Longrightarrow> reversebytes (reversebytes x) = x"
proof (induction x rule: byte_pairs.induct)
  case 1
  show ?case by (simp add: reversebytes_def)
next
  case (2 a)
  then show ?case by simp
next
  case (3 a b rest)
  then have ev: "even (length rest)" by simp
  then have "even (length (reversebytes rest))" by (simp add: length_reversebytes)
  then have "reversebytes (reversebytes rest @ [a, b]) = [a, b] @ reversebytes (reversebytes rest)"
    by (rule reversebytes_snoc_pair)
  with 3 ev show ?case by (simp add: reversebytes_pair)
qed

theorem reversebytes_involution_witness:
  "even (length ''0a1b2c'') \<and> reversebytes ''0a1b2c'' = ''2c1b0a''
   \<and> reversebytes (reversebytes ''0a1b2c'') = ''0a1b2c''"
  using reversebytes_involution [of "''0a1b2c''"] by (simp add: reversebytes_def)

text \<open>
  C9 as stated (a string of odd length makes the reversal fail) does not hold: the
  function has no failure, and on \<open>''abc''\<close> it returns \<open>''cab''\<close>.
\<close>

theorem reversebytes_odd_counterexample:
  "odd (length ''abc'') \<and> reversebytes ''abc'' = ''cab''"
  by (simp add: reversebytes_def)

text \<open>
  C9, amended. On a string of odd length the reversal returns a string of the same
  length: the last character, which is a chunk of its own, followed by the reversal
  of the rest.
\<close>

theorem reversebytes_odd:
  "odd (length x) \<Longrightarrow>
     reversebytes x = last x # reversebytes (butlast x) \<and> length (reversebytes x) = length x"
proof (induction x rule: byte_pairs.induct)
  case 1
  then show ?case by simp
next
  case (2 a)
  show ?case by (simp add: reversebytes_def)
next
  case (3 a b rest)
  then have od: "odd (length rest)" by simp
  then have ne: "rest \<noteq> []" by auto
  from 3 od have "reversebytes rest = last rest # reversebytes (butlast rest)" by simp
  with ne show ?case by (simp add: reversebytes_pair length_reversebytes)
qed

theorem reversebytes_odd_witness:
  "odd (length ''abcde'') \<and> reversebytes ''abcde'' = ''ecdab''
   \<and> reversebytes ''abcde'' = last ''abcde'' # reversebytes (butlast ''abcde'')"
  using reversebytes_odd [of "''abcde''"] by (simp add: reversebytes_def)

section \<open>The coinbase transaction\<close>

text \<open>
  C5. The coinbase transaction has exactly one input, with the reference \<open>0\<close> and the
  maximum output index \<open>2 ^ 32 - 1\<close>, and exactly one output, of value 50; and it is at
  position 0 of the list of transactions of the block, for every pool, the empty pool
  included.
\<close>

theorem coinbase_first:
  "vin create_coinbase_transaction =
     [\<lparr> in_txid = PyInt 0, in_vout = 4294967295,
        in_prevout = Some \<lparr> prev_scriptpubkey = ''coinbase_scriptpubkey'', prev_value = 50 \<rparr> \<rparr>]
   \<and> MAX_VOUT = 2 ^ 32 - 1
   \<and> in_vout (hd (vin create_coinbase_transaction)) = MAX_VOUT
   \<and> length (vin create_coinbase_transaction) = 1
   \<and> length (vout create_coinbase_transaction) = 1
   \<and> map out_value (vout create_coinbase_transaction) = [PyNum 50]
   \<and> transactions_for_block pool ! 0 = create_coinbase_transaction
   \<and> transactions_for_block [] = [create_coinbase_transaction]"
  by (simp add: create_coinbase_transaction_def MAX_VOUT_def transactions_for_block_def
      valid_transactions_def)

section \<open>Validation rules\<close>

lemma check_outputs_int:
  "map out_value outs = map PyNum vals \<Longrightarrow>
     check_outputs outs (PyNum tot) =
       (if list_all (\<lambda>v. 0 \<le> v \<and> v \<le> 21000000) vals
        then Some (PyNum (tot + sum_list vals)) else None)"
proof (induction outs arbitrary: vals tot)
  case Nil
  then show ?case by simp
next
  case (Cons ou outs)
  then obtain v vs where vals: "vals = v # vs" and v: "out_value ou = PyNum v"
    and vs: "map out_value outs = map PyNum vs"
    by (cases vals) auto
  from Cons.IH [OF vs] show ?case
    by (simp add: vals v MIN_OUTPUT_VALUE_def MAX_OUTPUT_VALUE_def add.assoc)
qed

lemma check_inputs_eq:
  "check_inputs ins = list_all (\<lambda>i. \<not> (in_txid i = PyStr ''0'' \<and> in_vout i = - 1)) ins"
  by (induction ins) auto

text \<open>The validator on a transaction whose output values and locktime are integers.\<close>

lemma validate_transaction_int:
  assumes "map out_value (vout tx) = map PyNum vals" and "locktime tx = PyNum lt"
  shows "validate_transaction tx =
     (if vin tx \<noteq> [] \<and> vout tx \<noteq> []
         \<and> list_all (\<lambda>v. 0 \<le> v \<and> v \<le> 21000000) vals
         \<and> 0 \<le> sum_list vals \<and> sum_list vals \<le> 21000000
         \<and> list_all (\<lambda>i. \<not> (in_txid i = PyStr ''0'' \<and> in_vout i = - 1)) (vin tx)
         \<and> 0 \<le> lt \<and> lt \<le> sys_maxsize
         \<and> 100 \<le> length (json_dumps (transaction_to_json tx))
      then None else Some False)"
  using check_outputs_int [OF assms(1), of 0]
  by (auto simp: validate_transaction_def check_inputs_eq assms(2)
      MIN_OUTPUT_VALUE_def MAX_OUTPUT_VALUE_def)

lemmas dumps_simps =
  json_dumps_def transaction_to_json_def input_to_json_def output_to_json_def
  prevout_to_json_def pyval_to_json_def pynum_to_json_def json_string_def escape_char_def
  str_int_def digits.simps digit_char_def

lemma len1: "length (json_dumps (transaction_to_json pool_tx1)) = 390"
  by (simp add: pool_tx1_def dumps_simps)

lemma len2: "length (json_dumps (transaction_to_json pool_tx2)) = 345"
  by (simp add: pool_tx2_def dumps_simps)

lemma len_nan: "length (json_dumps (transaction_to_json nan_tx)) = 387"
  by (simp add: nan_tx_def pool_tx1_def dumps_simps)

lemma len_short: "length (json_dumps (transaction_to_json short_tx)) = 74"
  by (simp add: short_tx_def dumps_simps)

lemma pool_tx1_fields:
  "vin pool_tx1 \<noteq> []" "vout pool_tx1 \<noteq> []"
  "map out_value (vout pool_tx1) = map PyNum [100000]" "locktime pool_tx1 = PyNum 0"
  "list_all (\<lambda>i. \<not> (in_txid i = PyStr ''0'' \<and> in_vout i = - 1)) (vin pool_tx1)"
  by (simp_all add: pool_tx1_def)

lemma pool_tx2_fields:
  "vin pool_tx2 \<noteq> []" "vout pool_tx2 \<noteq> []"
  "map out_value (vout pool_tx2) = map PyNum [21000000, 0]" "locktime pool_tx2 = PyNum 840000"
  "list_all (\<lambda>i. \<not> (in_txid i = PyStr ''0'' \<and> in_vout i = - 1)) (vin pool_tx2)"
  by (simp_all add: pool_tx2_def)

lemma pool_tx3_fields:
  "vin pool_tx3 \<noteq> []" "vout pool_tx3 \<noteq> []"
  "map out_value (vout pool_tx3) = map PyNum [20000000, 20000000]" "locktime pool_tx3 = PyNum 0"
  by (simp_all add: pool_tx3_def)

lemma short_tx_fields:
  "vin short_tx \<noteq> []" "vout short_tx \<noteq> []"
  "map out_value (vout short_tx) = map PyNum [1]" "locktime short_tx = PyNum 0"
  "list_all (\<lambda>i. \<not> (in_txid i = PyStr ''0'' \<and> in_vout i = - 1)) (vin short_tx)"
  by (simp_all add: short_tx_def)

text \<open>
  C1 as stated does not hold. The JSON reader delivers the literal \<^verbatim>\<open>NaN\<close> as a
  number, and every comparison with it is \<^verbatim>\<open>False\<close>: a transaction whose only output
  has the value NaN, which is no value of \<open>[0, 21000000]\<close>, passes the two checks of
  the values, the check of the total (NaN as well) and the other rules, and is not
  rejected.
\<close>

theorem validate_transaction_nan_counterexample:
  "vin nan_tx \<noteq> [] \<and> vout nan_tx \<noteq> [] \<and> map out_value (vout nan_tx) = [PyNaN]
   \<and> check_outputs (vout nan_tx) (PyNum 0) = Some PyNaN
   \<and> validate_transaction nan_tx = None"
proof -
  have f: "vin nan_tx \<noteq> []" "vout nan_tx \<noteq> []" "map out_value (vout nan_tx) = [PyNaN]"
    "check_outputs (vout nan_tx) (PyNum 0) = Some PyNaN" "locktime nan_tx = PyNum 0"
    "check_inputs (vin nan_tx)"
    by (simp_all add: nan_tx_def pool_tx1_def MIN_OUTPUT_VALUE_def MAX_OUTPUT_VALUE_def)
  then have "validate_transaction nan_tx = None"
    by (simp add: validate_transaction_def len_nan sys_maxsize_def)
  with f show ?thesis by simp
qed

text \<open>
  C1, amended. For a transaction with at least one input and one output whose output
  values and locktime are integers, the validator rejects (returns \<^verbatim>\<open>False\<close>) exactly
  when one of the rules is violated: an output value outside \<open>[0, 21000000]\<close>, the sum
  of the output values outside that range, an input with the reference \<^verbatim>\<open>"0"\<close> and the
  index \<open>-1\<close>, a locktime outside \<open>[0, sys.maxsize]\<close>, or a serialization shorter than
  100 characters. When every rule holds it reaches the end of its body without a
  rejection (the result \<^verbatim>\<open>None\<close>), which is the acceptance.
\<close>

theorem validate_transaction_rules:
  assumes "vin tx \<noteq> []" and "vout tx \<noteq> []"
    and "map out_value (vout tx) = map PyNum vals" and "locktime tx = PyNum lt"
  shows "validate_transaction tx =
     (if list_all (\<lambda>v. 0 \<le> v \<and> v \<le> 21000000) vals
         \<and> 0 \<le> sum_list vals \<and> sum_list vals \<le> 21000000
         \<and> list_all (\<lambda>i. \<not> (in_txid i = PyStr ''0'' \<and> in_vout i = - 1)) (vin tx)
         \<and> 0 \<le> lt \<and> lt \<le> sys_maxsize
         \<and> 100 \<le> length (json_dumps (transaction_to_json tx))
      then None else Some False)"
  using validate_transaction_int [OF assms(3,4)] assms(1,2) by simp

text \<open>
  The theorem at a transaction that obeys every rule, at one that violates the rule of
  the sum alone, and at one that violates the rule of the size alone.
\<close>

theorem validate_transaction_rules_witness:
  "vin pool_tx1 \<noteq> [] \<and> vout pool_tx1 \<noteq> []
   \<and> map out_value (vout pool_tx1) = map PyNum [100000] \<and> locktime pool_tx1 = PyNum 0
   \<and> validate_transaction pool_tx1 = None
   \<and> vin pool_tx3 \<noteq> [] \<and> vout pool_tx3 \<noteq> []
   \<and> map out_value (vout pool_tx3) = map PyNum [20000000, 20000000]
   \<and> locktime pool_tx3 = PyNum 0
   \<and> validate_transaction pool_tx3 = Some False
   \<and> vin short_tx \<noteq> [] \<and> vout short_tx \<noteq> []
   \<and> map out_value (vout short_tx) = map PyNum [1] \<and> locktime short_tx = PyNum 0
   \<and> list_all (\<lambda>i. \<not> (in_txid i = PyStr ''0'' \<and> in_vout i = - 1)) (vin short_tx)
   \<and> length (json_dumps (transaction_to_json short_tx)) = 74
   \<and> validate_transaction short_tx = Some False"
proof -
  from validate_transaction_rules [OF pool_tx1_fields(1-4)] pool_tx1_fields(5)
  have 1: "validate_transaction pool_tx1 = None" by (simp add: len1 sys_maxsize_def)
  from validate_transaction_rules [OF pool_tx3_fields(1-4)]
  have 3: "validate_transaction pool_tx3 = Some False" by simp
  from validate_transaction_rules [OF short_tx_fields(1-4)]
  have 4: "validate_transaction short_tx = Some False" by (simp add: len_short)
  from 1 3 4 show ?thesis
    using pool_tx1_fields pool_tx3_fields short_tx_fields len_short by simp
qed

section \<open>Fixed-width fields\<close>

lemma length_digits_pos: "0 < length (digits b n)"
  by (subst digits.simps) simp

lemma length_digits_le: "2 \<le> b \<Longrightarrow> 0 < k \<Longrightarrow> n < b ^ k \<Longrightarrow> length (digits b n) \<le> k"
proof (induction k arbitrary: n)
  case 0
  then show ?case by simp
next
  case (Suc k)
  show ?case
  proof (cases "n < b")
    case True
    then show ?thesis by (subst digits.simps) simp
  next
    case False
    with Suc.prems have kpos: "0 < k" by (cases k) auto
    from Suc.prems have "n div b < b ^ k"
      by (simp add: less_mult_imp_div_less mult.commute)
    with Suc.IH Suc.prems kpos have "length (digits b (n div b)) \<le> k" by simp
    with False Suc.prems show ?thesis by (subst digits.simps) simp
  qed
qed

lemma length_digits_gt: "2 \<le> b \<Longrightarrow> b ^ k \<le> n \<Longrightarrow> k < length (digits b n)"
proof (induction k arbitrary: n)
  case 0
  show ?case using length_digits_pos [of b n] by simp
next
  case (Suc k)
  then have "b * b ^ k \<le> n" by simp
  then have "b ^ k \<le> n div b" using Suc.prems(1)
    by (metis div_le_mono nonzero_mult_div_cancel_left not_numeral_le_zero)
  with Suc have "k < length (digits b (n div b))" by simp
  moreover have "b \<le> b * b ^ k" using Suc.prems(1) by simp
  then have "\<not> n < b" using \<open>b * b ^ k \<le> n\<close> by linarith
  ultimately show ?case using Suc.prems by (subst digits.simps) simp
qed


lemma digit_char_hex: "d < 16 \<Longrightarrow> hex_val (digit_char d) = Some d"
proof -
  assume "d < 16"
  then have "d \<in> {0, 1, 2, 3, 4, 5, 6, 7, 8, 9, 10, 11, 12, 13, 14, 15}"
    by (simp only: insert_iff empty_iff) arith
  then show ?thesis
    by (auto simp: digit_char_def hex_val_def)
qed

lemma hex_value_append:
  "hex_value (xs @ ys) acc =
     (case hex_value xs acc of Inl e \<Rightarrow> Inl e | Inr v \<Rightarrow> hex_value ys v)"
  by (induction xs arbitrary: acc) (auto split: option.splits)

lemma hex_value_digits:
  "hex_value (digits 16 n) acc = Inr (acc * 16 ^ length (digits 16 n) + int n)"
proof (induction "16 :: nat" n arbitrary: acc rule: digits.induct)
  case (1 n)
  show ?case
  proof (cases "n < 16")
    case True
    then show ?thesis
      by (subst (1 2) digits.simps) (simp add: digit_char_hex)
  next
    case False
    then have ih: "hex_value (digits 16 (n div 16)) acc =
        Inr (acc * 16 ^ length (digits 16 (n div 16)) + int (n div 16))"
      using 1 by simp
    have d: "digits 16 n = digits 16 (n div 16) @ [digit_char (n mod 16)]"
      using False by (subst digits.simps) simp
    show ?thesis
      unfolding d
      by (simp add: hex_value_append ih digit_char_hex algebra_simps zdiv_int zmod_int)
  qed
qed

lemma hex_value_zeros: "hex_value (replicate k CHR ''0'' @ s) 0 = hex_value s 0"
  by (induction k) (simp_all add: hex_val_def)

lemma int16_field: "0 \<le> v \<Longrightarrow> int16 (field v w) = Inr v"
  using length_digits_pos [of 16 "nat v"]
  by (simp add: int16_def field_def zfill_def hex_value_zeros hex_value_digits)

lemma length_field_in_range:
  assumes "1 \<le> w" and "0 \<le> v" and "v < 2 ^ (8 * w)"
  shows "length (field v w) = 2 * w"
proof -
  have "nat v < 2 ^ (8 * w)" using assms by (simp add: nat_less_iff)
  also have "(2 :: nat) ^ (8 * w) = 16 ^ (2 * w)"
  proof -
    have "(16 :: nat) ^ (2 * w) = (2 ^ 4) ^ (2 * w)" by simp
    also have "\<dots> = 2 ^ (4 * (2 * w))" by (rule power_mult [symmetric])
    finally show ?thesis by simp
  qed
  finally have "length (digits 16 (nat v)) \<le> 2 * w"
    using assms(1) by (intro length_digits_le) simp_all
  then show ?thesis using assms by (simp add: field_def zfill_def)
qed

text \<open>
  C6 as stated does not hold: a value that does not fit the width is not refused.
  \<^verbatim>\<open>field(2**32, 4)\<close> is the nine digits \<^verbatim>\<open>100000000\<close> and \<^verbatim>\<open>field(-1, 4)\<close> is
  \<^verbatim>\<open>-0000001\<close>; and for the width 0 the value 0 gives one character, not none.
\<close>

theorem field_counterexample:
  "field 4294967296 4 = ''100000000'' \<and> field (- 1) 4 = ''-0000001'' \<and> field 0 0 = ''0''"
  by (simp add: field_def zfill_def digits.simps digit_char_def replicate_numeral)

text \<open>
  C6, amended. For every width \<open>w\<close> of at least one byte and every value in
  \<open>[0, 2 ^ (8 * w) - 1]\<close>, \<open>field\<close> gives exactly \<open>2 * w\<close> hexadecimal digits, most
  significant first: read in base 16 they are the value. A value outside the range is
  not refused: from \<open>2 ^ (8 * w)\<close> on the result is the digits of the value, more than
  \<open>2 * w\<close> of them, and for a negative value it is the minus sign followed by the
  digits of its absolute value, padded to \<open>2 * w - 1\<close>.
\<close>

theorem field_width:
  "(1 \<le> w \<and> 0 \<le> v \<and> v < 2 ^ (8 * w) \<longrightarrow>
      length (field v w) = 2 * w \<and> int16 (field v w) = Inr v)
   \<and> (2 ^ (8 * w) \<le> v \<longrightarrow>
      field v w = digits 16 (nat v) \<and> 2 * w < length (field v w) \<and> int16 (field v w) = Inr v)
   \<and> (v < 0 \<longrightarrow> field v w = CHR ''-'' # zfill (2 * w - 1) (digits 16 (nat (- v))))"
proof (intro conjI impI)
  assume a: "1 \<le> w \<and> 0 \<le> v \<and> v < 2 ^ (8 * w)"
  then show "length (field v w) = 2 * w" by (simp add: length_field_in_range)
  from a show "int16 (field v w) = Inr v" by (simp add: int16_field)
next
  assume a: "2 ^ (8 * w) \<le> v"
  have p: "(2 :: nat) ^ (8 * w) = 16 ^ (2 * w)"
  proof -
    have "(16 :: nat) ^ (2 * w) = (2 ^ 4) ^ (2 * w)" by simp
    also have "\<dots> = 2 ^ (4 * (2 * w))" by (rule power_mult [symmetric])
    finally show ?thesis by simp
  qed
  have "(0 :: int) < 2 ^ (8 * w)" by simp
  with a have nonneg: "0 \<le> v" by linarith
  from a have "int (2 ^ (8 * w)) \<le> v" by simp
  then have "(2 :: nat) ^ (8 * w) \<le> nat v" by linarith
  then have "(16 :: nat) ^ (2 * w) \<le> nat v" by (simp only: p)
  then have len: "2 * w < length (digits 16 (nat v))" by (intro length_digits_gt) simp_all
  then show "field v w = digits 16 (nat v)" using nonneg by (simp add: field_def zfill_def)
  with len show "2 * w < length (field v w)" by simp
  from nonneg show "int16 (field v w) = Inr v" by (simp add: int16_field)
next
  assume "v < 0"
  then show "field v w = CHR ''-'' # zfill (2 * w - 1) (digits 16 (nat (- v)))"
    by (simp add: field_def mult.commute)
qed

theorem field_width_witness:
  "(1 :: nat) \<le> 4 \<and> (0 :: int) \<le> 1 \<and> (1 :: int) < 2 ^ (8 * 4)
   \<and> field 1 4 = ''00000001'' \<and> length (field 1 4) = 2 * 4 \<and> int16 (field 1 4) = Inr 1
   \<and> (2 :: int) ^ (8 * 4) \<le> 4294967296
   \<and> field 4294967296 4 = ''100000000'' \<and> 2 * 4 < length (field 4294967296 4)
   \<and> (- 1 :: int) < 0 \<and> field (- 1) 4 = ''-0000001''"
  using field_width [where w = 4 and v = 1] field_width [where w = 4 and v = 4294967296]
    field_width [where w = 4 and v = "- 1"]
  by (simp add: field_def zfill_def digits.simps digit_char_def replicate_numeral)

section \<open>Hexadecimal strings\<close>

lemma is_hex_append: "is_hex (xs @ ys) = (is_hex xs \<and> is_hex ys)"
  by (simp add: is_hex_def)

lemma is_hex_Cons: "is_hex (c # cs) = (hex_val c \<noteq> None \<and> is_hex cs)"
  by (simp add: is_hex_def)

lemma is_hex_Nil: "is_hex []"
  by (simp add: is_hex_def)

lemma hex_not_space: "hex_val c \<noteq> None \<Longrightarrow> \<not> is_space c"
  by (auto simp: hex_val_def is_space_def Let_def split: if_splits)

lemma fromhex_even: "is_hex s \<Longrightarrow> even (length s) \<Longrightarrow> \<exists>bs. fromhex s = Inr bs"
proof (induction s rule: fromhex.induct)
  case 1
  show ?case by simp
next
  case (2 c)
  then show ?case by simp
next
  case (3 c d rest)
  then have "\<not> is_space c" "hex_val c \<noteq> None" "hex_val d \<noteq> None" "is_hex rest" "even (length rest)"
    by (auto simp: is_hex_Cons hex_not_space)
  with 3 show ?case by (auto split: sum.splits)
qed


lemma is_hex_digits: "is_hex (digits 16 n)"
proof (induction "16 :: nat" n rule: digits.induct)
  case (1 n)
  show ?case
  proof (cases "n < 16")
    case True
    then show ?thesis by (subst digits.simps) (simp add: is_hex_Cons is_hex_Nil digit_char_hex)
  next
    case False
    with 1 have "is_hex (digits 16 (n div 16))" by simp
    with False show ?thesis
      by (subst digits.simps) (simp add: is_hex_append is_hex_Cons is_hex_Nil digit_char_hex)
  qed
qed

lemma is_hex_zeros: "is_hex (replicate k CHR ''0'')"
  by (induction k) (simp_all add: is_hex_Cons is_hex_Nil hex_val_def)

lemma is_hex_field: "0 \<le> v \<Longrightarrow> is_hex (field v w)"
  by (simp add: field_def zfill_def is_hex_append is_hex_zeros is_hex_digits)

lemma is_hex_reversebytes: "is_hex (reversebytes s) = is_hex s"
  by (induction s rule: byte_pairs.induct)
     (auto simp: reversebytes_pair is_hex_append is_hex_Cons is_hex_Nil reversebytes_def)

lemma is_hex_hexdigest: "is_hex (hexdigest bs)"
proof (induction bs)
  case Nil
  show ?case by (simp add: hexdigest_def is_hex_Nil)
next
  case (Cons b bs)
  have "unat b < 256" using unsigned_less [of b] by simp
  then have "unat b div 16 < 16" by simp
  with Cons show ?case
    by (simp add: hexdigest_def hex_byte_def is_hex_Cons is_hex_append digit_char_hex)
qed

lemma length_hexdigest: "length (hexdigest bs) = 2 * length bs"
  by (induction bs) (simp_all add: hexdigest_def hex_byte_def)

lemma length_sha256: "length (sha256 m) = 32"
proof -
  have "length (state_bytes st) = 32" for st
    by (cases st rule: state_bytes.cases) (simp add: bytes_of_word_def)
  then show ?thesis by (simp add: sha256_def)
qed

lemma hex_value_bounds:
  "is_hex s \<Longrightarrow> 0 \<le> acc \<Longrightarrow>
     \<exists>r. hex_value s acc = Inr r \<and> acc * 16 ^ length s \<le> r \<and> r < (acc + 1) * 16 ^ length s"
proof (induction s arbitrary: acc)
  case Nil
  show ?case by simp
next
  case (Cons c cs)
  then obtain d where d: "hex_val c = Some d" and cs: "is_hex cs" by (auto simp: is_hex_Cons)
  have "d < 16" using d by (auto simp: hex_val_def Let_def split: if_splits)
  from Cons.prems have "0 \<le> 16 * acc + int d" by simp
  from Cons.IH [OF cs this] obtain r where
    r: "hex_value cs (16 * acc + int d) = Inr r"
       "(16 * acc + int d) * 16 ^ length cs \<le> r"
       "r < (16 * acc + int d + 1) * 16 ^ length cs" by blast
  have "acc * 16 ^ length (c # cs) \<le> (16 * acc + int d) * 16 ^ length cs"
    by (simp add: algebra_simps)
  then have lo: "acc * 16 ^ length (c # cs) \<le> r" using r(2) by (rule order_trans)
  have "(16 * acc + int d + 1) * 16 ^ length cs \<le> (acc + 1) * 16 ^ length (c # cs)"
    using \<open>d < 16\<close> by (simp add: algebra_simps)
  with r(3) have hi: "r < (acc + 1) * 16 ^ length (c # cs)" by (rule less_le_trans)
  have "hex_value (c # cs) acc = Inr r" using r(1) d by simp
  with lo hi show ?case by blast
qed

lemma int16_bounds:
  "is_hex s \<Longrightarrow> s \<noteq> [] \<Longrightarrow> \<exists>r. int16 s = Inr r \<and> 0 \<le> r \<and> r < 16 ^ length s"
  using hex_value_bounds [of s 0] by (auto simp: int16_def)

section \<open>The mining loop\<close>

lemma length_merkleroot: "length (merkleroot txids) = 64"
  by (simp add: merkleroot_def length_hexdigest length_sha256)

lemma is_hex_prevblock: "is_hex prevblock"
  by (simp add: prevblock_def is_hex_def hex_val_def)

lemma length_prevblock: "length prevblock = 64"
  by (simp add: prevblock_def)

lemma length_field4:
  "0 \<le> v \<Longrightarrow> v < 4294967296 \<Longrightarrow> length (field v 4) = 8"
  using length_field_in_range [of 4 v] by simp

lemma header_hex:
  assumes "0 \<le> time_stamp" and "time_stamp < 4294967296"
  shows "is_hex (header time_stamp txids)"
    and "length (header time_stamp txids) = 144"
  using assms
  by (simp_all add: header_def is_hex_append is_hex_reversebytes is_hex_field is_hex_prevblock
      merkleroot_def is_hex_hexdigest length_reversebytes length_field4 length_prevblock
      length_hexdigest length_sha256)

lemma hash256_hex:
  assumes "is_hex s" and "even (length s)"
  shows "\<exists>h. hash256 s = Inr h \<and> is_hex h \<and> length h = 64"
proof -
  from fromhex_even [OF assms] obtain bs where "fromhex s = Inr bs" by blast
  then show ?thesis
    by (simp add: hash256_def is_hex_hexdigest length_hexdigest length_sha256)
qed

lemma attempt_hex:
  assumes "is_hex hdr" and "0 \<le> nonce"
  shows "is_hex (attempt hdr nonce)"
  using assms by (simp add: attempt_def is_hex_append is_hex_reversebytes is_hex_field)

lemma length_attempt:
  assumes "0 \<le> nonce" and "nonce < 4294967296"
  shows "length (attempt hdr nonce) = length hdr + 8"
  using assms by (simp add: attempt_def length_reversebytes length_field4)


text \<open>An iteration whose attempt is well formed: the digest is a number below \<open>2 ^ 256\<close>.\<close>

lemma mining_step_well_formed:
  assumes "is_hex hdr" and "even (length hdr)" and "0 \<le> nonce" and "nonce < 4294967296"
    and "int16 target = Inr t"
  shows "\<exists>h r. hash256 (attempt hdr nonce) = Inr h \<and> int16 (reversebytes h) = Inr r
            \<and> 0 \<le> r \<and> r < 2 ^ 256
            \<and> mining_step hdr target nonce =
                (if r < t then Return hdr (reversebytes h) else Continue)"
proof -
  have "is_hex (attempt hdr nonce)" "even (length (attempt hdr nonce))"
    using assms by (simp_all add: attempt_hex length_attempt)
  from hash256_hex [OF this] obtain h where
    h: "hash256 (attempt hdr nonce) = Inr h" "is_hex h" "length h = 64" by blast
  then have "is_hex (reversebytes h)" "reversebytes h \<noteq> []" "length (reversebytes h) = 64"
    using length_reversebytes [of h] by (auto simp: is_hex_reversebytes)
  with int16_bounds [of "reversebytes h"] obtain r where
    r: "int16 (reversebytes h) = Inr r" "0 \<le> r" "r < 16 ^ 64" by auto
  have "(16 :: int) ^ 64 = 2 ^ 256" by simp
  with r have "r < 2 ^ 256" by simp
  with h r assms(5) show ?thesis by (simp add: mining_step_def)
qed



lemma mining_txids:
  "txids_of transactions = Inr txids \<Longrightarrow>
     mining time_stamp target transactions = mining_loop (header time_stamp txids) target 0"
  by (simp add: mining_def)

lemma mining_KeyError:
  "txids_of transactions = Inl e \<Longrightarrow> mining time_stamp target transactions = Some (Inl e)"
  by (simp add: mining_def)

lemma txids_of_pool_tx1: "txids_of [pool_tx1] = Inr [''3f1c0a5e9b7d2468ace013579bdf02468ace13579bdf0a1b2c3d4e5f60718293'']"
  by (simp add: pool_tx1_def)


lemma mining_large_target:
  assumes "0 \<le> time_stamp" and "time_stamp < 4294967296" and "int16 target = Inr t"
    and "2 ^ 256 \<le> t" and "txids_of transactions = Inr txids"
  shows "\<exists>r. mining time_stamp target transactions = Some (Inr (header time_stamp txids, r))"
proof -
  have "is_hex (header time_stamp txids)" "even (length (header time_stamp txids))"
    using header_hex [OF assms(1,2)] by simp_all
  from mining_step_well_formed [OF this _ _ assms(3), of 0] assms(4)
  obtain res where "mining_step (header time_stamp txids) target 0
      = Return (header time_stamp txids) res"
    by auto
  then show ?thesis
    by (subst mining_txids [OF assms(5)], subst mining_loop.simps) simp
qed


lemma int16_two_256:
  "int16 ''10000000000000000000000000000000000000000000000000000000000000000'' = Inr (2 ^ 256)"
  by (simp add: int16_def hex_val_def)

lemma attempt_neq: "attempt hdr nonce \<noteq> hdr"
proof -
  have "length (field nonce 4) > 0"
    using length_digits_pos [of 16 "nat nonce"] by (simp add: field_def zfill_def)
  then show ?thesis by (simp add: attempt_def length_reversebytes flip: length_greater_0_conv)
qed

lemma header_prefix: "reversebytes (field 2 4) = ''02000000''"
  by (simp add: field_def zfill_def digits.simps digit_char_def reversebytes_def replicate_numeral)

lemma reversebytes_prevblock:
  "reversebytes prevblock = ''50120119172a610421a6c3011dd330d9df07b63616c2cc1f1cd0020000000000''"
  by (simp add: prevblock_def reversebytes_def)

lemma header_prevblock: "take 64 (drop 8 (header time_stamp txids)) = reversebytes prevblock"
  by (simp add: header_def header_prefix) (simp add: reversebytes_prevblock)

lemma mining_step_Return: "mining_step hdr target nonce = Return h r \<Longrightarrow> h = hdr"
  by (auto simp: mining_step_def split: sum.splits if_splits)

lemma mining_loop_result:
  assumes "mining_loop hdr target nonce = Some y"
  shows "\<forall>h r. y = Inr (h, r) \<longrightarrow> h = hdr"
  using assms
proof (induction rule: mining_loop.raw_induct [rotated 1, consumes 1])
  case (1 mining_loop' hdr target nonce y)
  show ?case
  proof (cases "mining_step hdr target nonce")
    case (Raise e)
    with 1(2) show ?thesis by auto
  next
    case (Return h r)
    with 1(2) mining_step_Return [OF Return] show ?thesis by auto
  next
    case Continue
    with 1 show ?thesis by auto
  qed
qed

text \<open>
  C3, at an input on which the function returns. With the time stamp 1700000000, no
  transaction and the target \<open>2 ^ 256\<close>, above every digest, the search returns at the
  nonce 0. The first component of the pair it returns is the header of 144 digits
  built before the loop, not the attempt of 152 digits that was hashed: the encoding of
  the nonce is not in it.
\<close>

theorem mining_returns_header_without_nonce:
  "\<exists>r. mining 1700000000 ''10000000000000000000000000000000000000000000000000000000000000000'' []
          = Some (Inr (header 1700000000 [], r))
        \<and> length (header 1700000000 []) = 144
        \<and> length (attempt (header 1700000000 []) 0) = 152
        \<and> header 1700000000 [] \<noteq> attempt (header 1700000000 []) 0"
proof -
  have "txids_of [] = Inr []" by simp
  from mining_large_target [OF _ _ int16_two_256 _ this, of 1700000000]
  obtain r where
    "mining 1700000000 ''10000000000000000000000000000000000000000000000000000000000000000'' []
       = Some (Inr (header 1700000000 [], r))" by auto
  moreover have "length (header 1700000000 []) = 144"
    using header_hex [of 1700000000 "[]"] by simp
  moreover from this have "length (attempt (header 1700000000 []) 0) = 152"
    by (simp add: length_attempt)
  moreover have "header 1700000000 [] \<noteq> attempt (header 1700000000 []) 0"
    using attempt_neq [of "header 1700000000 []" 0] by simp
  ultimately show ?thesis by blast
qed




text \<open>
  C10. For every list of transactions, every target and every time stamp, the
  characters 8 to 71 of the header that the mining builds are the byte-order reversal
  of the constant \<open>prevblock\<close>, and a header that the mining returns is that header: the
  function has no parameter for a previous block.
\<close>

theorem mined_header_prevblock:
  "take 64 (drop 8 (header time_stamp txids)) = reversebytes prevblock
   \<and> reversebytes prevblock = ''50120119172a610421a6c3011dd330d9df07b63616c2cc1f1cd0020000000000''
   \<and> (mining time_stamp target transactions = Some (Inr (h, r)) \<longrightarrow>
        (\<exists>ids. txids_of transactions = Inr ids \<and> h = header time_stamp ids)
        \<and> take 64 (drop 8 h) = reversebytes prevblock)"
proof (intro conjI impI)
  show "take 64 (drop 8 (header time_stamp txids)) = reversebytes prevblock"
    by (rule header_prevblock)
  show "reversebytes prevblock = ''50120119172a610421a6c3011dd330d9df07b63616c2cc1f1cd0020000000000''"
    by (rule reversebytes_prevblock)
next
  assume m: "mining time_stamp target transactions = Some (Inr (h, r))"
  then obtain ids where ids: "txids_of transactions = Inr ids"
    by (cases "txids_of transactions") (simp_all add: mining_KeyError)
  with m have "mining_loop (header time_stamp ids) target 0 = Some (Inr (h, r))"
    by (simp add: mining_txids)
  from mining_loop_result [OF this] have h: "h = header time_stamp ids" by simp
  with ids show "\<exists>ids. txids_of transactions = Inr ids \<and> h = header time_stamp ids" by blast
  from h show "take 64 (drop 8 h) = reversebytes prevblock" by (simp add: header_prevblock)
qed

theorem mined_header_prevblock_witness:
  "\<exists>r. mining 1700000000 ''10000000000000000000000000000000000000000000000000000000000000000''
          [pool_tx1] = Some (Inr (header 1700000000 [''3f1c0a5e9b7d2468ace013579bdf02468ace13579bdf0a1b2c3d4e5f60718293''], r))
        \<and> take 64 (drop 8 (header 1700000000 [''3f1c0a5e9b7d2468ace013579bdf02468ace13579bdf0a1b2c3d4e5f60718293'']))
            = ''50120119172a610421a6c3011dd330d9df07b63616c2cc1f1cd0020000000000''"
proof -
  from mining_large_target [OF _ _ int16_two_256 _ txids_of_pool_tx1, of 1700000000]
  obtain r where m:
    "mining 1700000000 ''10000000000000000000000000000000000000000000000000000000000000000''
       [pool_tx1] = Some (Inr (header 1700000000 [''3f1c0a5e9b7d2468ace013579bdf02468ace13579bdf0a1b2c3d4e5f60718293''], r))" by auto
  from mined_header_prevblock [of 1700000000 "[''3f1c0a5e9b7d2468ace013579bdf02468ace13579bdf0a1b2c3d4e5f60718293'']"
      "''10000000000000000000000000000000000000000000000000000000000000000''" "[pool_tx1]"
      "header 1700000000 [''3f1c0a5e9b7d2468ace013579bdf02468ace13579bdf0a1b2c3d4e5f60718293'']" r] m
  have "take 64 (drop 8 (header 1700000000 [''3f1c0a5e9b7d2468ace013579bdf02468ace13579bdf0a1b2c3d4e5f60718293'']))
      = ''50120119172a610421a6c3011dd330d9df07b63616c2cc1f1cd0020000000000''" by simp
  with m show ?thesis by blast
qed

section \<open>The Merkle root\<close>

lemma of_char_less_256: "(of_char c :: nat) < 256"
proof -
  have "(of_char c :: nat) mod 256 = of_char c" by (rule of_char_mod_256)
  then show ?thesis by (metis mod_less_divisor zero_less_numeral)
qed

lemma byte_of_nat_inj:
  "a < 256 \<Longrightarrow> b < 256 \<Longrightarrow> (of_nat a :: 8 word) = of_nat b \<Longrightarrow> a = b"
  by (simp add: word_of_nat_eq_iff take_bit_nat_eq_self)

lemma encode_char_low:
  "(of_char c :: nat) < 128 \<Longrightarrow> encode_char c = [of_nat (of_char c)]"
  by (simp add: encode_char_def Let_def)

lemma encode_char_high:
  "\<not> (of_char c :: nat) < 128 \<Longrightarrow>
     encode_char c = [of_nat (192 + of_char c div 64), of_nat (128 + of_char c mod 64)]"
  by (simp add: encode_char_def Let_def)

lemma encode_char_prefix:
  assumes "encode_char c @ xs = encode_char d @ ys"
  shows "c = d \<and> xs = ys"
proof -
  let ?m = "of_char c :: nat" and ?n = "of_char d :: nat"
  have m: "?m < 256" and n: "?n < 256" by (rule of_char_less_256)+
  have hi: "192 + ?m div 64 < 256" "192 + ?n div 64 < 256"
    "128 + ?m mod 64 < 256" "128 + ?n mod 64 < 256" using m n by arith+
  have "?m = ?n \<and> xs = ys"
  proof (cases "?m < 128"; cases "?n < 128")
    assume a: "?m < 128" "?n < 128"
    from assms have "[of_nat ?m :: 8 word] @ xs = [of_nat ?n] @ ys"
      by (simp only: encode_char_low [OF a(1)] encode_char_low [OF a(2)])
    then have e: "(of_nat ?m :: 8 word) = of_nat ?n" and x: "xs = ys" by simp_all
    from byte_of_nat_inj [OF m n e] x show ?thesis by simp
  next
    assume a: "?m < 128" "\<not> ?n < 128"
    from assms have "[of_nat ?m :: 8 word] @ xs
        = [of_nat (192 + ?n div 64), of_nat (128 + ?n mod 64)] @ ys"
      by (simp only: encode_char_low [OF a(1)] encode_char_high [OF a(2)])
    then have e: "(of_nat ?m :: 8 word) = of_nat (192 + ?n div 64)"
      by (simp del: of_nat_add)
    from byte_of_nat_inj [OF m hi(2) e] a show ?thesis by simp
  next
    assume a: "\<not> ?m < 128" "?n < 128"
    from assms have "[of_nat (192 + ?m div 64), of_nat (128 + ?m mod 64)] @ xs
        = [of_nat ?n :: 8 word] @ ys"
      by (simp only: encode_char_high [OF a(1)] encode_char_low [OF a(2)])
    then have e: "(of_nat (192 + ?m div 64) :: 8 word) = of_nat ?n"
      by (simp del: of_nat_add)
    from byte_of_nat_inj [OF hi(1) n e] a show ?thesis by simp
  next
    assume a: "\<not> ?m < 128" "\<not> ?n < 128"
    from assms have "[of_nat (192 + ?m div 64), of_nat (128 + ?m mod 64)] @ xs
        = [of_nat (192 + ?n div 64), of_nat (128 + ?n mod 64) :: 8 word] @ ys"
      by (simp only: encode_char_high [OF a(1)] encode_char_high [OF a(2)])
    then have e: "(of_nat (192 + ?m div 64) :: 8 word) = of_nat (192 + ?n div 64)"
      "(of_nat (128 + ?m mod 64) :: 8 word) = of_nat (128 + ?n mod 64)" and x: "xs = ys"
      by (simp_all del: of_nat_add)
    from byte_of_nat_inj [OF hi(1) hi(2) e(1)] byte_of_nat_inj [OF hi(3) hi(4) e(2)]
    have "?m div 64 = ?n div 64" "?m mod 64 = ?n mod 64" by simp_all
    then have "?m = ?n" by (metis div_mult_mod_eq)
    with x show ?thesis by simp
  qed
  then show ?thesis by simp
qed

lemma encode_char_not_Nil: "encode_char c \<noteq> []"
  by (simp add: encode_char_def Let_def)

lemma encode_Cons: "encode (c # cs) = encode_char c @ encode cs"
  by (simp add: encode_def)

lemma encode_inj: "encode s = encode t \<Longrightarrow> s = t"
proof (induction s arbitrary: t)
  case Nil
  then show ?case by (cases t) (simp_all add: encode_def encode_char_not_Nil)
next
  case (Cons c cs)
  show ?case
  proof (cases t)
    case Nil
    with Cons.prems show ?thesis by (simp add: encode_def encode_char_not_Nil)
  next
    case (Cons d ds)
    with Cons.prems have "encode_char c @ encode cs = encode_char d @ encode ds"
      by (simp add: encode_Cons)
    then have "c = d" "encode cs = encode ds" using encode_char_prefix by blast+
    with Cons.IH Cons show ?thesis by simp
  qed
qed

text \<open>
  C8 as stated does not hold: the root is a hash of the concatenation of the
  identifiers, and the distinct identifiers \<open>''a''\<close> and \<open>''aa''\<close> have the same
  concatenation in both orders, hence the same root.
\<close>

theorem merkleroot_order_counterexample:
  "''a'' \<noteq> ''aa'' \<and> merkleroot [''a'', ''aa''] = merkleroot [''aa'', ''a'']"
  by (simp add: merkleroot_def)

text \<open>
  C8, amended. The root of two identifiers is the SHA-256 of their concatenation in the
  given order, so it depends on the order through that text only: when both orders
  give the same text the roots are equal, and for distinct identifiers of the same
  length (as the digests of 64 characters are) the two orders give different bytes to
  the hash.
\<close>

theorem merkleroot_concat:
  "merkleroot [a, b] = hexdigest (sha256 (encode (a @ b)))
   \<and> (a @ b = b @ a \<longrightarrow> merkleroot [a, b] = merkleroot [b, a])
   \<and> (a \<noteq> b \<and> length a = length b \<longrightarrow> encode (a @ b) \<noteq> encode (b @ a))"
proof (intro conjI impI)
  show "merkleroot [a, b] = hexdigest (sha256 (encode (a @ b)))"
    by (simp add: merkleroot_def)
next
  assume "a @ b = b @ a"
  then show "merkleroot [a, b] = merkleroot [b, a]" by (simp add: merkleroot_def)
next
  assume "a \<noteq> b \<and> length a = length b"
  then have "a @ b \<noteq> b @ a" by simp
  then show "encode (a @ b) \<noteq> encode (b @ a)" using encode_inj by blast
qed

theorem merkleroot_concat_witness:
  "''a'' @ ''aa'' = ''aa'' @ ''a'' \<and> merkleroot [''a'', ''aa''] = merkleroot [''aa'', ''a'']
   \<and> ''3f'' \<noteq> ''9e'' \<and> length ''3f'' = length ''9e''
   \<and> encode (''3f'' @ ''9e'') \<noteq> encode (''9e'' @ ''3f'')"
proof -
  have "''a'' @ ''aa'' = ''aa'' @ ''a''" by simp
  with merkleroot_concat [of "''a''" "''aa''"]
  have 1: "merkleroot [''a'', ''aa''] = merkleroot [''aa'', ''a'']" by blast
  have 2: "''3f'' \<noteq> ''9e'' \<and> length ''3f'' = length ''9e''" by simp
  with merkleroot_concat [of "''3f''" "''9e''"]
  have 3: "encode (''3f'' @ ''9e'') \<noteq> encode (''9e'' @ ''3f'')" by blast
  from 1 2 3 show ?thesis by simp
qed

section \<open>From the pool to the block\<close>

lemma validate_transaction_not_True: "validate_transaction tx \<noteq> Some True"
  by (simp add: validate_transaction_def split: option.splits)

lemma valid_transactions_Nil: "valid_transactions transactions = []"
  by (simp add: valid_transactions_def truthy_def validate_transaction_not_True)

lemma validate_pool_tx1: "validate_transaction pool_tx1 = None"
  using validate_transaction_int [OF pool_tx1_fields(3,4)] pool_tx1_fields(1,2,5)
  by (simp add: len1 sys_maxsize_def)

lemma validate_pool_tx2: "validate_transaction pool_tx2 = None"
  using validate_transaction_int [OF pool_tx2_fields(3,4)] pool_tx2_fields(1,2,5)
  by (simp add: len2 sys_maxsize_def)

lemma validate_pool_tx3: "validate_transaction pool_tx3 = Some False"
  using validate_transaction_int [OF pool_tx3_fields(3,4)] by simp

text \<open>
  C2, at a pool of three transactions. The first two obey every rule, so the validator
  reaches the end of its body and returns \<^verbatim>\<open>None\<close>; the third has outputs within the
  bounds whose sum is above the maximum and is rejected with \<^verbatim>\<open>False\<close>. The filter of
  \<^verbatim>\<open>main\<close> keeps the transactions with a true result, and neither \<^verbatim>\<open>None\<close> nor
  \<^verbatim>\<open>False\<close> is one: the block is the coinbase transaction alone, and no identifier
  follows the two first lines of the output.
\<close>

theorem pool_of_three_block:
  "validate_transaction pool_tx1 = None \<and> validate_transaction pool_tx2 = None
   \<and> validate_transaction pool_tx3 = Some False
   \<and> map out_value (vout pool_tx3) = [PyNum 20000000, PyNum 20000000]
   \<and> check_outputs (vout pool_tx3) (PyNum 0) = Some (PyNum 40000000)
   \<and> valid_transactions [pool_tx1, pool_tx2, pool_tx3] = []
   \<and> transactions_for_block [pool_tx1, pool_tx2, pool_tx3] = [create_coinbase_transaction]
   \<and> length (transactions_for_block [pool_tx1, pool_tx2, pool_tx3]) = 1
   \<and> output_lines block_header [pool_tx1, pool_tx2, pool_tx3]
       = Inr [json_dumps_with True (JStr block_header),
              serialize_transaction create_coinbase_transaction]"
proof -
  have "map out_value (vout pool_tx3) = [PyNum 20000000, PyNum 20000000]"
    "check_outputs (vout pool_tx3) (PyNum 0) = Some (PyNum 40000000)"
    by (simp_all add: pool_tx3_def MIN_OUTPUT_VALUE_def MAX_OUTPUT_VALUE_def)
  then show ?thesis
    by (simp add: validate_pool_tx1 validate_pool_tx2 validate_pool_tx3 valid_transactions_Nil
        transactions_for_block_def output_lines_def)
qed

end
